theory Spec2Isabelle
  imports Complex_Main
begin

section \<open>Errors and outcomes\<close>

text \<open>
  The Go code returns values of the interface \<open>error\<close>. The clients distinguish
  \<open>gophercloud.ErrDefault409\<close> (a conflict; its field \<open>Actual\<close> is the HTTP status
  received) from every other error by a type switch or a type assertion. Errors made
  with \<open>fmt.Errorf(format)\<close> keep the format string they were built from, and
  \<open>wait.ErrWaitTimeout\<close> is the error of a poll that ran out of time.
\<close>

datatype error =
    ErrDefault409 (Actual: int)
  | ErrOther string
  | ErrWaitTimeout
  | Errorf string

text \<open>A run-time panic (index out of range, nil dereference) is not a returned error.\<close>

datatype 'a exec = Panic string | Returns 'a

text \<open>Indexing a slice panics when the index is not below its length.\<close>

definition index :: "'a list \<Rightarrow> nat \<Rightarrow> 'a exec" where
  "index xs i = (if i < length xs then Returns (xs ! i) else Panic ''index out of range'')"

text \<open>
  \<open>strings.Split(s, sep)\<close> for a separator of one byte, the only use the program makes
  of it: the pieces of \<open>s\<close> between the occurrences of the separator, one more piece
  than there are occurrences.
\<close>

fun strings_Split :: "string \<Rightarrow> char \<Rightarrow> string list" where
  "strings_Split [] sep = [[]]"
| "strings_Split (x # xs) sep =
     (if x = sep then [] # strings_Split xs sep
      else (case strings_Split xs sep of
              [] \<Rightarrow> [[x]]
            | w # ws \<Rightarrow> (x # w) # ws))"

section \<open>Data model\<close>

text \<open>
  \<open>model.IronicNode\<close> is declared outside the sources at hand; the record has the
  fields the clients read and write. The inventory keeps the three measurements the
  flavor matcher reads: \<open>Inventory.Memory.PhysicalMb\<close>, \<open>RootDisk.Size\<close> and
  \<open>Inventory.CPU.Count\<close>.
\<close>

record InspectonData =
  Inventory_Memory_PhysicalMb :: int
  RootDisk_Size :: int
  Inventory_CPU_Count :: int

record IronicNode =
  UUID :: string
  Name :: string
  Host :: string
  IP :: string
  ResourceClass :: string
  InstanceUUID :: string
  InstanceIPv4 :: string
  InspectionData :: InspectonData

text \<open>Patch operations (\<open>nodes.UpdateOperation\<close>, \<open>ports.UpdateOperation\<close>).\<close>

datatype val = StringVal string | BoolVal bool

record UpdateOperation =
  Op :: string
  Path :: string
  Value :: val

type_synonym UpdateOpts = "UpdateOperation list"

record Port =
  PortUUID :: string

datatype TargetProvisionState = TargetManage | TargetProvide

text \<open>What \<open>nodes.Get\<close> returns, as far as the clients look at it.\<close>

record Node =
  ProvisionState :: string
  PowerState :: string



record Zone =
  ZoneID :: string

datatype CreateOpts =
  CreateOpts (RecordName: string) (TTL: int) (RecordType: string) (Records: "string list")


section \<open>The poll primitive\<close>

text \<open>
  A \<open>wait.ConditionFunc\<close> returns \<open>(done, err)\<close>. The conditions of this program call
  a remote service, so the model threads a state \<open>'s\<close> through every invocation.
\<close>

type_synonym 's ConditionFunc = "'s \<Rightarrow> (bool \<times> error option) \<times> 's"

text \<open>
  Modelled from the spec: \<open>wait.Poll(interval, timeout, condition)\<close> of
  \<open>k8s.io/apimachinery/pkg/util/wait\<close> is called by the clients but is not among the
  sources. Section 4.1: the condition is invoked at every tick of the interval until it
  reports settled (success), reports an error (abort with that error), or the timeout
  elapses (abort with a timeout error). Time is counted in nanoseconds, as
  \<open>time.Duration\<close> does, and a condition takes no time. The ticks are at \<open>I\<close>, \<open>2 * I\<close>,
  ...; a tick is served while it comes strictly before the timeout \<open>T\<close>. When the
  timeout elapses the condition is consulted one last time, and only if it is still
  unsettled the poll ends in \<open>ErrWaitTimeout\<close>: the condition runs once for every tick
  and once more when the ticks end. An error of the condition takes precedence over its
  \<open>done\<close> flag. \<open>t\<close> is the time of the latest tick served. The interval is meant to
  be positive, as a ticker needs; with a zero interval the model makes the closing
  invocation only.
\<close>

function poller :: "nat \<Rightarrow> nat \<Rightarrow> nat \<Rightarrow> 's ConditionFunc \<Rightarrow> 's \<Rightarrow> error option \<times> 's" where
  "poller I T t cf s =
     (if 0 < I \<and> t + I < T then
        (case cf s of
           ((_, Some e), s') \<Rightarrow> (Some e, s')
         | ((True, None), s') \<Rightarrow> (None, s')
         | ((False, None), s') \<Rightarrow> poller I T (t + I) cf s')
      else
        (case cf s of
           ((_, Some e), s') \<Rightarrow> (Some e, s')
         | ((True, None), s') \<Rightarrow> (None, s')
         | ((False, None), s') \<Rightarrow> (Some ErrWaitTimeout, s')))"
  by pat_completeness auto
termination
  by (relation "measure (\<lambda>(I, T, t, cf, s). T - t)") auto

definition Poll :: "nat \<Rightarrow> nat \<Rightarrow> 's ConditionFunc \<Rightarrow> 's \<Rightarrow> error option \<times> 's" where
  "Poll interval timeout condition s = poller interval timeout 0 condition s"

definition Second :: nat where
  "Second = 1000000000"

text \<open>
  Instruments for stating properties of runs: the state after \<open>k\<close> invocations of a
  condition, the report of invocation \<open>k + 1\<close>, and a wrapper that records every
  invocation of a stateful call in a log kept beside the state.
\<close>

fun iter :: "'s ConditionFunc \<Rightarrow> 's \<Rightarrow> nat \<Rightarrow> 's" where
  "iter cf s 0 = s"
| "iter cf s (Suc k) = iter cf (snd (cf s)) k"

definition report :: "'s ConditionFunc \<Rightarrow> 's \<Rightarrow> nat \<Rightarrow> bool \<times> error option" where
  "report cf s k = fst (cf (iter cf s k))"

definition logged :: "'c \<Rightarrow> ('w \<Rightarrow> 'r \<times> 'w) \<Rightarrow> 'c list \<times> 'w \<Rightarrow> 'r \<times> 'c list \<times> 'w" where
  "logged c f = (\<lambda>(tr, w). case f w of (r, w') \<Rightarrow> (r, (tr @ [c], w')))"

text \<open>The remote calls a log can record.\<close>

datatype call =
    PortsUpdate string UpdateOpts
  | NodesUpdate string UpdateOpts
  | NodesChangeProvisionState string TargetProvisionState
  | NodesGet string
  | DeleteTestDeployment string

text \<open>The number of invocations a poll makes when the condition never settles.\<close>

definition invocations :: "nat \<Rightarrow> nat \<Rightarrow> nat" where
  "invocations I T = Suc ((T - 1) div I)"

section \<open>Applying rules: \<open>updatePorts\<close> and \<open>updateNode\<close>\<close>

text \<open>
  The remote services are parameters: a call takes the state \<open>'w\<close> of the remote side
  and returns its answer with the new state. \<open>ports.List(...).AllPages()\<close> followed by
  \<open>ports.ExtractPorts\<close> answers \<open>Inl e\<close> when fetching fails, \<open>Inr (Inl e)\<close> when
  extracting fails and \<open>Inr (Inr ps)\<close> otherwise.

  The condition of \<open>updatePorts\<close>: a conflict (\<open>ErrDefault409\<close>, the node is locked) is
  reported as \<open>(false, nil)\<close>, any other error as \<open>(true, err)\<close>.
\<close>

definition updatePorts_cf ::
  "(string \<Rightarrow> UpdateOpts \<Rightarrow> 'w \<Rightarrow> error option \<times> 'w) \<Rightarrow> string \<Rightarrow> UpdateOpts \<Rightarrow> 'w ConditionFunc" where
  "updatePorts_cf ports_Update uuid opts = (\<lambda>w.
     case ports_Update uuid opts w of
       (Some err, w') \<Rightarrow>
         (case err of
            ErrDefault409 _ \<Rightarrow> ((False, None), w')
          | _ \<Rightarrow> ((True, Some err), w'))
     | (None, w') \<Rightarrow> ((True, None), w'))"

fun updatePorts_loop ::
  "(string \<Rightarrow> UpdateOpts \<Rightarrow> 'w \<Rightarrow> error option \<times> 'w) \<Rightarrow> UpdateOpts \<Rightarrow> Port list \<Rightarrow> 'w \<Rightarrow> error option \<times> 'w" where
  "updatePorts_loop ports_Update opts [] w = (None, w)"
| "updatePorts_loop ports_Update opts (p # ps) w =
     (case Poll (5 * Second) (60 * Second) (updatePorts_cf ports_Update (PortUUID p) opts) w of
        (Some err, w') \<Rightarrow> (Some err, w')
      | (None, w') \<Rightarrow> updatePorts_loop ports_Update opts ps w')"

definition updatePorts ::
  "(string \<Rightarrow> 'w \<Rightarrow> (error + error + Port list) \<times> 'w) \<Rightarrow>
   (string \<Rightarrow> UpdateOpts \<Rightarrow> 'w \<Rightarrow> error option \<times> 'w) \<Rightarrow>
   UpdateOpts \<Rightarrow> IronicNode \<Rightarrow> 'w \<Rightarrow> error option \<times> 'w" where
  "updatePorts ports_List ports_Update opts n w =
     (case ports_List (UUID n) w of
        (Inl err, w') \<Rightarrow> (Some err, w')
      | (Inr (Inl err), w') \<Rightarrow> (Some err, w')
      | (Inr (Inr ps), w') \<Rightarrow> updatePorts_loop ports_Update opts ps w')"

text \<open>
  The condition of \<open>updateNode\<close> reports \<open>(false, nil)\<close> for every error of
  \<open>nodes.Update\<close> (the error is only printed).
\<close>

definition updateNode_cf ::
  "(string \<Rightarrow> UpdateOpts \<Rightarrow> 'w \<Rightarrow> error option \<times> 'w) \<Rightarrow> string \<Rightarrow> UpdateOpts \<Rightarrow> 'w ConditionFunc" where
  "updateNode_cf nodes_Update uuid opts = (\<lambda>w.
     case nodes_Update uuid opts w of
       (Some err, w') \<Rightarrow> ((False, None), w')
     | (None, w') \<Rightarrow> ((True, None), w'))"

definition updateNode ::
  "(string \<Rightarrow> UpdateOpts \<Rightarrow> 'w \<Rightarrow> error option \<times> 'w) \<Rightarrow> UpdateOpts \<Rightarrow> IronicNode \<Rightarrow> 'w \<Rightarrow> error option \<times> 'w" where
  "updateNode nodes_Update opts n w =
     Poll (5 * Second) (60 * Second) (updateNode_cf nodes_Update (UUID n) opts) w"

section \<open>DNS registration: \<open>CreateDNSRecordFor\<close>\<close>

text \<open>
  \<open>zones.List(...).AllPages()\<close> with \<open>zones.ExtractZones\<close> answers like the port
  listing above. The node's \<open>Host\<close> is set before the record is created.
\<close>

definition CreateDNSRecordFor ::
  "string \<Rightarrow>
   (string \<Rightarrow> 'd \<Rightarrow> (error + error + Zone list) \<times> 'd) \<Rightarrow>
   (string \<Rightarrow> CreateOpts \<Rightarrow> 'd \<Rightarrow> error option \<times> 'd) \<Rightarrow>
   IronicNode \<Rightarrow> 'd \<Rightarrow> (error option \<times> IronicNode \<times> 'd) exec" where
  "CreateDNSRecordFor domain zones_List recordsets_Create n d =
     (case zones_List (domain @ ''.'') d of
        (Inl err, d1) \<Rightarrow> Returns (Some err, n, d1)
      | (Inr (Inl err), d1) \<Rightarrow> Returns (Some (Errorf ''wrong dns zone''), n, d1)
      | (Inr (Inr allZones), d1) \<Rightarrow>
          if length allZones = 0 then Returns (Some (Errorf ''wrong dns zone''), n, d1)
          else
            let na = strings_Split (Name n) CHR ''-'' in
            if length na < 1 then Returns (Some (Errorf ''wrong node name''), n, d1)
            else
              (case index na 0 of
                 Panic p \<Rightarrow> Panic p
               | Returns na0 \<Rightarrow>
              (case index na 1 of
                 Panic p \<Rightarrow> Panic p
               | Returns na1 \<Rightarrow>
                   let name = na0 @ ''r-'' @ na1;
                       recordName = name @ ''.'' @ domain @ ''.'';
                       n' = n\<lparr>Host := recordName\<rparr>
                   in
                   (case recordsets_Create (ZoneID (allZones ! 0))
                           (CreateOpts recordName 3600 ''A'' [IP n']) d1 of
                      (Some (ErrDefault409 actual), d2) \<Rightarrow>
                        if actual = 409 then Returns (None, n', d2)
                        else Returns (Some (ErrDefault409 actual), n', d2)
                    | (err, d2) \<Rightarrow> Returns (err, n', d2)))))"

section \<open>Validation: \<open>ValidateNode\<close>\<close>


section \<open>Test instance teardown: \<open>DeleteTestInstance\<close>\<close>

text \<open>
  The node is passed by pointer; the model returns it with the error, so that every
  assignment to one of its fields would show.
\<close>

definition DeleteTestInstance ::
  "(string \<Rightarrow> 'w \<Rightarrow> error option \<times> 'w) \<Rightarrow>
   (string \<Rightarrow> string \<Rightarrow> int \<Rightarrow> 'w \<Rightarrow> error option \<times> 'w) \<Rightarrow>
   IronicNode \<Rightarrow> 'w \<Rightarrow> error option \<times> IronicNode \<times> 'w" where
  "DeleteTestInstance servers_ForceDelete servers_WaitForStatus n w =
     (case servers_ForceDelete (InstanceUUID n) w of
        (Some err, w') \<Rightarrow> (Some err, n, w')
      | (None, w') \<Rightarrow>
          (case servers_WaitForStatus (InstanceUUID n) ''DELETED'' 60 w' of
             (err, w'') \<Rightarrow> (err, n, w'')))"

section \<open>The flavor matcher: \<open>getMatchingFlavorFor\<close>\<close>


text \<open>
  The local variables of the page handler: the three running thresholds, the name to
  return, and the node, whose \<open>ResourceClass\<close> the loop assigns.
\<close>

record matching =
  ram :: rat
  disk :: rat
  cpu :: rat
  name :: string
  node :: IronicNode




section \<open>Provisioning: \<open>ProvideNode\<close> and \<open>PrepareNode\<close>\<close>

definition ProvideNode_cf ::
  "(string \<Rightarrow> TargetProvisionState \<Rightarrow> 'w \<Rightarrow> error option \<times> 'w) \<Rightarrow>
   string \<Rightarrow> TargetProvisionState \<Rightarrow> 'w ConditionFunc" where
  "ProvideNode_cf nodes_ChangeProvisionState uuid tp = (\<lambda>w.
     case nodes_ChangeProvisionState uuid tp w of
       (Some err, w') \<Rightarrow>
         (case err of
            ErrDefault409 _ \<Rightarrow> ((False, None), w')
          | _ \<Rightarrow> ((True, Some err), w'))
     | (None, w') \<Rightarrow> ((True, None), w'))"

definition ProvideNode_cfp ::
  "(string \<Rightarrow> 'w \<Rightarrow> (error + Node) \<times> 'w) \<Rightarrow> string \<Rightarrow> 'w ConditionFunc" where
  "ProvideNode_cfp nodes_Get uuid = (\<lambda>w.
     case nodes_Get uuid w of
       (Inl err, w') \<Rightarrow> ((True, Some err), w')
     | (Inr n, w') \<Rightarrow>
         if ProvisionState n \<noteq> ''available'' then ((False, None), w')
         else ((True, None), w'))"


definition PrepareNode ::
  "(string \<Rightarrow> UpdateOpts \<Rightarrow> 'w \<Rightarrow> error option \<times> 'w) \<Rightarrow> IronicNode \<Rightarrow> 'w \<Rightarrow> (error option \<times> 'w) exec" where
  "PrepareNode nodes_Update n w =
     (case index (strings_Split (Name n) CHR ''-'') 1 of
        Panic p \<Rightarrow> Panic p
      | Returns conductor \<Rightarrow>
          let opts = [\<lparr>Op = ''replace'', Path = ''/conductor_group'', Value = StringVal conductor\<rparr>,
                      \<lparr>Op = ''replace'', Path = ''/maintenance'', Value = BoolVal True\<rparr>]
          in Returns (updateNode nodes_Update opts n w))"

section \<open>The error handler: \<open>initHandler\<close>\<close>

text \<open>
  The values sent on the \<open>Errors\<close> channel are a \<open>*SchedulerError\<close>, whose \<open>Node\<close> is a
  pointer and may be nil, or any other error. What the handler's \<open>select\<close> can receive
  is an event: an error from the channel, or the cancellation of the context. The
  events are given in the order in which they become ready.
\<close>

datatype failure = SchedulerError string "IronicNode option" | OtherError string

datatype event = Received failure | CtxDone

datatype logline = Infof string string | Error string

text \<open>
  The goroutine runs one \<open>select\<close> and ends. The model returns the lines logged, the
  events left unreceived and the remote state. The error of the teardown
  (\<open>DeleteNodeTestDeployment\<close>, a parameter) is dropped. With no event at all the
  goroutine stays blocked, having done nothing.
\<close>

fun initHandler ::
  "(IronicNode \<Rightarrow> 'w \<Rightarrow> error option \<times> 'w) \<Rightarrow> event list \<Rightarrow> 'w \<Rightarrow> (logline list \<times> event list \<times> 'w) exec" where
  "initHandler DeleteNodeTestDeployment [] w = Returns ([], [], w)"
| "initHandler DeleteNodeTestDeployment (CtxDone # rest) w = Returns ([], rest, w)"
| "initHandler DeleteNodeTestDeployment (Received (OtherError msg) # rest) w =
     Returns ([Error msg], rest, w)"
| "initHandler DeleteNodeTestDeployment (Received (SchedulerError msg None) # rest) w =
     Panic ''nil pointer dereference''"
| "initHandler DeleteNodeTestDeployment (Received (SchedulerError msg (Some n)) # rest) w =
     (if InstanceUUID n \<noteq> ''''
      then Returns ([Infof (UUID n) msg], rest, snd (DeleteNodeTestDeployment n w))
      else Returns ([Infof (UUID n) msg], rest, w))"

section \<open>The matcher in the words of the specification\<close>














section \<open>Example data\<close>

text \<open>A node and two flavors for the concrete runs below.\<close>

definition node0 :: IronicNode where
  "node0 = \<lparr>UUID = ''6f1e'', Name = ''node001-bb091'', Host = '''', IP = ''10.0.0.7'',
     ResourceClass = '''', InstanceUUID = '''', InstanceIPv4 = '''',
     InspectionData = \<lparr>Inventory_Memory_PhysicalMb = 64000, RootDisk_Size = 500,
       Inventory_CPU_Count = 16\<rparr>\<rparr>"



text \<open>
  A node that carries a test instance, and remote calls that accept every request or
  refuse every request with the same error.
\<close>

definition node1 :: IronicNode where
  "node1 = node0\<lparr>InstanceUUID := ''i-42'', InstanceIPv4 := ''10.1.1.1''\<rparr>"

definition accepting :: "'a \<Rightarrow> 'w \<Rightarrow> error option \<times> 'w" where
  "accepting x w = (None, w)"

definition failing :: "error \<Rightarrow> 'w \<Rightarrow> error option \<times> 'w" where
  "failing e w = (Some e, w)"

definition reaching :: "string \<Rightarrow> string \<Rightarrow> int \<Rightarrow> 'w \<Rightarrow> error option \<times> 'w" where
  "reaching uuid status secs w = (None, w)"

text \<open>
  A DNS service with one zone that keeps the names of its records and answers the
  creation of a record it already has with a conflict.
\<close>

definition listing :: "string \<Rightarrow> string list \<Rightarrow> (error + error + Zone list) \<times> string list" where
  "listing zone recs = (Inr (Inr [\<lparr>ZoneID = ''zone-1''\<rparr>]), recs)"

definition creating :: "string \<Rightarrow> CreateOpts \<Rightarrow> string list \<Rightarrow> error option \<times> string list" where
  "creating zid opts recs =
     (if RecordName opts \<in> set recs then (Some (ErrDefault409 409), recs)
      else (None, RecordName opts # recs))"

section \<open>Properties of the poll primitive\<close>

declare poller.simps [simp del]

lemma report_0: "report cf s 0 = fst (cf s)"
  by (simp add: report_def)

lemma report_Suc: "report cf s (Suc k) = report cf (snd (cf s)) k"
  by (simp add: report_def)

lemma iter_Suc_right: "iter cf s (Suc k) = snd (cf (iter cf s k))"
  by (induction k arbitrary: s) simp_all

lemma poller_unsettled:
  assumes "fst (cf s) = (False, None)" "0 < I" "t + I < T"
  shows "poller I T t cf s = poller I T (t + I) cf (snd (cf s))"
  using assms by (subst poller.simps) (auto split: prod.splits)

lemma poller_settled:
  assumes "fst (cf s) = (True, None)"
  shows "poller I T t cf s = (None, snd (cf s))"
  using assms by (subst poller.simps) (auto split: prod.splits)

lemma poller_failed:
  assumes "fst (cf s) = (b, Some e)"
  shows "poller I T t cf s = (Some e, snd (cf s))"
  using assms by (subst poller.simps) (cases b; auto split: prod.splits)

lemma poller_expired:
  assumes "fst (cf s) = (False, None)" "\<not> (0 < I \<and> t + I < T)"
  shows "poller I T t cf s = (Some ErrWaitTimeout, snd (cf s))"
  using assms by (subst poller.simps) (auto split: prod.splits)

lemma poller_skip:
  assumes "0 < I" "\<forall>j<k. report cf s j = (False, None)" "t + k * I < T"
  shows "poller I T t cf s = poller I T (t + k * I) cf (iter cf s k)"
  using assms
proof (induction k arbitrary: t s)
  case 0
  then show ?case by simp
next
  case (Suc k)
  from Suc.prems(2) have first: "fst (cf s) = (False, None)"
    by (auto simp: report_0 dest: spec [of _ 0])
  from Suc.prems(2) have rest: "\<forall>j<k. report cf (snd (cf s)) j = (False, None)"
    by (auto simp: report_Suc [symmetric])
  from Suc.prems(3) have t1: "t + I < T" and t2: "(t + I) + k * I < T"
    by simp_all
  have "poller I T t cf s = poller I T (t + I) cf (snd (cf s))"
    using first Suc.prems(1) t1 by (rule poller_unsettled)
  also have "\<dots> = poller I T (t + I + k * I) cf (iter cf (snd (cf s)) k)"
    using Suc.prems(1) rest t2 by (rule Suc.IH)
  finally show ?case by (simp add: add.assoc)
qed

lemma Poll_settles:
  assumes "0 < I" "\<forall>j<k. report cf s j = (False, None)" "k * I < T"
    and "report cf s k = (True, None)"
  shows "Poll I T cf s = (None, iter cf s (Suc k))"
proof -
  have "Poll I T cf s = poller I T (0 + k * I) cf (iter cf s k)"
    unfolding Poll_def using assms(1,2) by (rule poller_skip) (simp add: assms(3))
  also have "\<dots> = (None, snd (cf (iter cf s k)))"
    using assms(4) by (intro poller_settled) (simp add: report_def)
  finally show ?thesis by (simp only: iter_Suc_right)
qed

lemma Poll_fails:
  assumes "0 < I" "\<forall>j<k. report cf s j = (False, None)" "k * I < T"
    and "report cf s k = (b, Some e)"
  shows "Poll I T cf s = (Some e, iter cf s (Suc k))"
proof -
  have "Poll I T cf s = poller I T (0 + k * I) cf (iter cf s k)"
    unfolding Poll_def using assms(1,2) by (rule poller_skip) (simp add: assms(3))
  also have "\<dots> = (Some e, snd (cf (iter cf s k)))"
    using assms(4) by (intro poller_failed [of _ _ b]) (simp add: report_def)
  finally show ?thesis by (simp only: iter_Suc_right)
qed

lemma invocations_bounds:
  assumes "0 < I" "0 < T"
  shows "(invocations I T - 1) * I < T" "T \<le> invocations I T * I" "T div I \<le> invocations I T"
proof -
  let ?k = "(T - 1) div I"
  have "?k * I \<le> T - 1" by simp
  with assms(2) have "?k * I < T" by linarith
  then show "(invocations I T - 1) * I < T" by (simp add: invocations_def)
  have "T - 1 < ?k * I + I"
    using assms(1) by (metis div_mult_mod_eq add_less_cancel_left mod_less_divisor)
  then show "T \<le> invocations I T * I" by (simp add: invocations_def)
  have "T div I \<le> (T - 1 + I) div I"
    using assms(1) by (intro div_le_mono) linarith
  also have "\<dots> = Suc ((T - 1) div I)"
    using assms(1) div_add_self2 [of I "T - 1"] by simp
  finally have "T div I \<le> Suc ((T - 1) div I)" .
  then show "T div I \<le> invocations I T" by (simp add: invocations_def)
qed

lemma Poll_times_out:
  assumes "0 < I" "0 < T" "\<forall>j<invocations I T. report cf s j = (False, None)"
  shows "Poll I T cf s = (Some ErrWaitTimeout, iter cf s (invocations I T))"
proof -
  let ?k = "invocations I T - 1"
  have k: "Suc ?k = invocations I T" by (simp add: invocations_def)
  have "Poll I T cf s = poller I T (0 + ?k * I) cf (iter cf s ?k)"
    unfolding Poll_def using assms(1)
  proof (rule poller_skip)
    show "\<forall>j<?k. report cf s j = (False, None)" using assms(3) by simp
    show "0 + ?k * I < T" using invocations_bounds(1) [OF assms(1,2)] by simp
  qed
  also have "\<dots> = (Some ErrWaitTimeout, snd (cf (iter cf s ?k)))"
  proof (rule poller_expired)
    show "fst (cf (iter cf s ?k)) = (False, None)"
      using assms(3) k by (metis lessI report_def)
    show "\<not> (0 < I \<and> 0 + ?k * I + I < T)"
      using invocations_bounds(2) [OF assms(1,2)] k by (metis add.commute add.left_neutral mult_Suc not_less)
  qed
  finally show ?thesis using k by (metis iter_Suc_right)
qed

lemma iter_logged: "iter (logged c cf) (tr, s) k = (tr @ replicate k c, iter cf s k)"
  by (induction k arbitrary: tr s) (auto simp: logged_def split: prod.splits)

lemma report_logged: "report (logged c cf) (tr, s) k = report cf s k"
  by (simp add: report_def iter_logged) (simp add: logged_def split: prod.splits)

lemma invocations_iff:
  assumes "0 < I" "0 < T"
  shows "k < invocations I T \<longleftrightarrow> k * I < T"
proof
  assume "k < invocations I T"
  then have "k \<le> invocations I T - 1" by (simp add: invocations_def)
  then have "k * I \<le> (invocations I T - 1) * I" by (rule mult_le_mono1)
  then show "k * I < T" using invocations_bounds(1) [OF assms] by (rule le_less_trans)
next
  assume "k * I < T"
  then have "k * I < invocations I T * I"
    using invocations_bounds(2) [OF assms] by (rule less_le_trans)
  then show "k < invocations I T" by (rule mult_less_cancel2 [THEN iffD1, THEN conjunct2])
qed

lemma Poll_cases [consumes 2, case_names settled failed expired]:
  assumes "0 < I" "0 < T"
  obtains
    (settled) k where "k < invocations I T" "\<forall>j<k. report cf s j = (False, None)"
      "report cf s k = (True, None)" "Poll I T cf s = (None, iter cf s (Suc k))"
  | (failed) k b e where "k < invocations I T" "\<forall>j<k. report cf s j = (False, None)"
      "report cf s k = (b, Some e)" "Poll I T cf s = (Some e, iter cf s (Suc k))"
  | (expired) "\<forall>j<invocations I T. report cf s j = (False, None)"
      "Poll I T cf s = (Some ErrWaitTimeout, iter cf s (invocations I T))"
proof (cases "\<forall>j<invocations I T. report cf s j = (False, None)")
  case True
  then show ?thesis using Poll_times_out [OF assms True] expired by blast
next
  case False
  define k where "k = (LEAST j. report cf s j \<noteq> (False, None))"
  from False obtain j0 where j0: "j0 < invocations I T" "report cf s j0 \<noteq> (False, None)"
    by blast
  have k1: "report cf s k \<noteq> (False, None)"
    unfolding k_def using j0(2) by (rule LeastI)
  have k2: "\<forall>j<k. report cf s j = (False, None)"
    unfolding k_def using not_less_Least by blast
  have "k \<le> j0" unfolding k_def using j0(2) by (rule Least_le)
  with j0(1) have k3: "k < invocations I T" by simp
  then have k4: "k * I < T"
    by (simp add: invocations_iff [OF assms])
  obtain b e where rk: "report cf s k = (b, e)" by (cases "report cf s k")
  show ?thesis
  proof (cases e)
    case None
    with k1 rk have "report cf s k = (True, None)" by (cases b) auto
    then show ?thesis using settled k3 k2 Poll_settles [OF assms(1) k2 k4] by blast
  next
    case (Some err)
    with rk have "report cf s k = (b, Some err)" by simp
    then show ?thesis using failed k3 k2 Poll_fails [OF assms(1) k2 k4] by blast
  qed
qed

section \<open>Claims about the poll primitive\<close>

text \<open>
  C2. Let the interval \<open>I\<close> be positive and shorter than the timeout \<open>T\<close>, and let the
  log count the invocations of the condition. A poll that ends in the timeout error,
  the condition itself never having reported that error, has invoked the condition at
  least \<open>T div I\<close> times. If the first report other than \<open>(false, nil)\<close> comes at
  invocation \<open>k + 1\<close> (which is made when \<open>k * I < T\<close>), the poll returns success when
  that report is \<open>(true, nil)\<close> and the reported error when there is one, and in both
  cases exactly \<open>k + 1\<close> invocations were made: none follows.
\<close>

theorem Poll_invocations:
  fixes cf :: "'s ConditionFunc"
  assumes "0 < I" and "I < T"
  shows
    "(\<forall>tr' s'. Poll I T (logged c cf) ([], s) = (Some ErrWaitTimeout, tr', s') \<longrightarrow>
        (\<forall>j. snd (report cf s j) \<noteq> Some ErrWaitTimeout) \<longrightarrow> T div I \<le> length tr') \<and>
     (\<forall>k. k * I < T \<longrightarrow> (\<forall>j<k. report cf s j = (False, None)) \<longrightarrow>
        report cf s k = (True, None) \<longrightarrow>
        Poll I T (logged c cf) ([], s) = (None, replicate (Suc k) c, iter cf s (Suc k))) \<and>
     (\<forall>k b e. k * I < T \<longrightarrow> (\<forall>j<k. report cf s j = (False, None)) \<longrightarrow>
        report cf s k = (b, Some e) \<longrightarrow>
        Poll I T (logged c cf) ([], s) = (Some e, replicate (Suc k) c, iter cf s (Suc k)))"
proof (intro conjI allI impI)
  from assms have T: "0 < T" by simp
  fix tr' s'
  assume run: "Poll I T (logged c cf) ([], s) = (Some ErrWaitTimeout, tr', s')"
    and own: "\<forall>j. snd (report cf s j) \<noteq> Some ErrWaitTimeout"
  show "T div I \<le> length tr'"
  proof (rule Poll_cases [OF assms(1) T, of "logged c cf" "([], s)"], goal_cases)
    case (1 k)
    with run show ?thesis by simp
  next
    case (2 k b e)
    with run have "report cf s k = (b, Some ErrWaitTimeout)"
      by (simp add: report_logged)
    with own show ?thesis by (metis snd_conv)
  next
    case 3
    with run have "tr' = replicate (invocations I T) c"
      by (simp add: iter_logged)
    then show ?thesis
      using invocations_bounds(3) [OF assms(1) T] by simp
  qed
next
  fix k
  assume "k * I < T" "\<forall>j<k. report cf s j = (False, None)" "report cf s k = (True, None)"
  then have "Poll I T (logged c cf) ([], s) = (None, iter (logged c cf) ([], s) (Suc k))"
    by (intro Poll_settles assms(1)) (simp_all add: report_logged)
  then show "Poll I T (logged c cf) ([], s) = (None, replicate (Suc k) c, iter cf s (Suc k))"
    by (simp only: iter_logged append_Nil)
next
  fix k b e
  assume "k * I < T" "\<forall>j<k. report cf s j = (False, None)" "report cf s k = (b, Some e)"
  then have "Poll I T (logged c cf) ([], s) = (Some e, iter (logged c cf) ([], s) (Suc k))"
    by (intro Poll_fails [where b = b] assms(1)) (simp_all add: report_logged)
  then show "Poll I T (logged c cf) ([], s) = (Some e, replicate (Suc k) c, iter cf s (Suc k))"
    by (simp only: iter_logged append_Nil)
qed

theorem Poll_invocations_witness:
  "Poll 5 60 (logged () (\<lambda>n::nat. ((2 \<le> n, None), Suc n))) ([], 0) = (None, [(), (), ()], 3) \<and>
   Poll 5 60 (logged () (\<lambda>n::nat. ((False, if 2 \<le> n then Some (ErrOther ''gone'') else None), Suc n)))
     ([], 0) = (Some (ErrOther ''gone''), [(), (), ()], 3) \<and>
   (60::nat) div 5
     \<le> length (fst (snd (Poll 5 60 (logged () (\<lambda>n::nat. ((False, None), Suc n))) ([], 0))))"
proof (intro conjI)
  have prem: "(0::nat) < 5" "(5::nat) < 60" by simp_all
  let ?settles = "\<lambda>n::nat. ((2 \<le> n, None :: error option), Suc n)"
  let ?fails = "\<lambda>n::nat. ((False, if 2 \<le> n then Some (ErrOther ''gone'') else None), Suc n)"
  let ?never = "\<lambda>n::nat. ((False, None :: error option), Suc n)"
  have it: "iter ?settles m j = m + j" "iter ?fails m j = m + j" "iter ?never m j = m + j" for m j
    by (induction j arbitrary: m) simp_all
  note inst = Poll_invocations [where c = "()" and s = "0::nat", OF prem]
  have "2 * 5 < (60::nat) \<longrightarrow> (\<forall>j<2. report ?settles 0 j = (False, None)) \<longrightarrow>
        report ?settles 0 2 = (True, None) \<longrightarrow>
        Poll 5 60 (logged () ?settles) ([], 0)
          = (None, replicate (Suc 2) (), iter ?settles 0 (Suc 2))"
    using inst [where cf = ?settles, THEN conjunct2, THEN conjunct1] by (rule spec)
  then show "Poll 5 60 (logged () ?settles) ([], 0) = (None, [(), (), ()], 3)"
    unfolding it report_def by (simp add: numeral_3_eq_3)
  have "2 * 5 < (60::nat) \<longrightarrow> (\<forall>j<2. report ?fails 0 j = (False, None)) \<longrightarrow>
        report ?fails 0 2 = (False, Some (ErrOther ''gone'')) \<longrightarrow>
        Poll 5 60 (logged () ?fails) ([], 0)
          = (Some (ErrOther ''gone''), replicate (Suc 2) (), iter ?fails 0 (Suc 2))"
    using inst [where cf = ?fails, THEN conjunct2, THEN conjunct2] by blast
  then show "Poll 5 60 (logged () ?fails) ([], 0) = (Some (ErrOther ''gone''), [(), (), ()], 3)"
    unfolding it report_def by (simp add: numeral_3_eq_3)
  have run: "Poll 5 60 (logged () ?never) ([], 0) = (Some ErrWaitTimeout, replicate 12 (), 12)"
    by (simp add: Poll_def poller.simps logged_def eval_nat_numeral)
  have "Poll 5 60 (logged () ?never) ([], 0) = (Some ErrWaitTimeout, replicate 12 (), 12) \<longrightarrow>
        (\<forall>j. snd (report ?never 0 j) \<noteq> Some ErrWaitTimeout) \<longrightarrow>
        60 div 5 \<le> length (replicate 12 ())"
    using inst [where cf = ?never, THEN conjunct1] by blast
  with run have "(60::nat) div 5 \<le> length (replicate 12 ())"
    by (simp add: report_def)
  with run show "(60::nat) div 5 \<le> length (fst (snd (Poll 5 60 (logged () ?never) ([], 0))))"
    by simp
qed

text \<open>How the conditions of the clients classify the answer of the remote call.\<close>

lemma updatePorts_cf_conflict:
  "fst (ports_Update uuid opts w) = Some (ErrDefault409 a) \<Longrightarrow>
   updatePorts_cf ports_Update uuid opts w = ((False, None), snd (ports_Update uuid opts w))"
  by (auto simp: updatePorts_cf_def split: prod.splits)

lemma updatePorts_cf_accepted:
  "fst (ports_Update uuid opts w) = None \<Longrightarrow>
   updatePorts_cf ports_Update uuid opts w = ((True, None), snd (ports_Update uuid opts w))"
  by (auto simp: updatePorts_cf_def split: prod.splits)

lemma updatePorts_cf_error:
  "fst (ports_Update uuid opts w) = Some e \<Longrightarrow> \<not> is_ErrDefault409 e \<Longrightarrow>
   updatePorts_cf ports_Update uuid opts w = ((True, Some e), snd (ports_Update uuid opts w))"
  by (cases e) (auto simp: updatePorts_cf_def split: prod.splits)

lemma ProvideNode_cf_conflict:
  "fst (cps uuid tp w) = Some (ErrDefault409 a) \<Longrightarrow>
   ProvideNode_cf cps uuid tp w = ((False, None), snd (cps uuid tp w))"
  by (auto simp: ProvideNode_cf_def split: prod.splits)

lemma ProvideNode_cf_accepted:
  "fst (cps uuid tp w) = None \<Longrightarrow>
   ProvideNode_cf cps uuid tp w = ((True, None), snd (cps uuid tp w))"
  by (auto simp: ProvideNode_cf_def split: prod.splits)

lemma ProvideNode_cf_error:
  "fst (cps uuid tp w) = Some e \<Longrightarrow> \<not> is_ErrDefault409 e \<Longrightarrow>
   ProvideNode_cf cps uuid tp w = ((True, Some e), snd (cps uuid tp w))"
  by (cases e) (auto simp: ProvideNode_cf_def split: prod.splits)

text \<open>
  C3. A condition that reports \<open>(false, nil)\<close> on its first \<open>k\<close> invocations and
  \<open>(true, nil)\<close> on the next makes the poll succeed whenever \<open>k * I < T\<close>. The
  conditions of \<open>updatePorts\<close> and of \<open>ProvideNode\<close> report a conflict answer
  (\<open>ErrDefault409\<close>) of the remote call as \<open>(false, nil)\<close>: when the remote side
  answers the first \<open>k\<close> requests with a conflict and accepts the next, their polls
  (every 5 seconds, for 60 and for 30 seconds) succeed after \<open>k + 1\<close> requests.
\<close>

theorem conflict_never_aborts:
  "(0 < I \<longrightarrow> k * I < T \<longrightarrow> (\<forall>j<k. report cf s j = (False, None)) \<longrightarrow>
      report cf s k = (True, None) \<longrightarrow> Poll I T cf s = (None, iter cf s (Suc k))) \<and>
   (k * (5 * Second) < 60 * Second \<longrightarrow>
      (\<forall>j<k. \<exists>a. fst (ports_Update uuid opts (iter (updatePorts_cf ports_Update uuid opts) w j))
                   = Some (ErrDefault409 a)) \<longrightarrow>
      fst (ports_Update uuid opts (iter (updatePorts_cf ports_Update uuid opts) w k)) = None \<longrightarrow>
      Poll (5 * Second) (60 * Second) (updatePorts_cf ports_Update uuid opts) w
        = (None, iter (updatePorts_cf ports_Update uuid opts) w (Suc k))) \<and>
   (k * (5 * Second) < 30 * Second \<longrightarrow>
      (\<forall>j<k. \<exists>a. fst (nodes_ChangeProvisionState uuid tp
                          (iter (ProvideNode_cf nodes_ChangeProvisionState uuid tp) v j))
                   = Some (ErrDefault409 a)) \<longrightarrow>
      fst (nodes_ChangeProvisionState uuid tp
             (iter (ProvideNode_cf nodes_ChangeProvisionState uuid tp) v k)) = None \<longrightarrow>
      Poll (5 * Second) (30 * Second) (ProvideNode_cf nodes_ChangeProvisionState uuid tp) v
        = (None, iter (ProvideNode_cf nodes_ChangeProvisionState uuid tp) v (Suc k)))"
proof (intro conjI impI)
  assume "0 < I" "k * I < T" "\<forall>j<k. report cf s j = (False, None)" "report cf s k = (True, None)"
  then show "Poll I T cf s = (None, iter cf s (Suc k))"
    by (intro Poll_settles)
next
  let ?cf = "updatePorts_cf ports_Update uuid opts"
  assume k: "k * (5 * Second) < 60 * Second"
    and conflicts: "\<forall>j<k. \<exists>a. fst (ports_Update uuid opts (iter ?cf w j)) = Some (ErrDefault409 a)"
    and accepted: "fst (ports_Update uuid opts (iter ?cf w k)) = None"
  have "0 < 5 * Second" by (simp add: Second_def)
  moreover have "\<forall>j<k. report ?cf w j = (False, None)"
    using conflicts by (metis report_def updatePorts_cf_conflict fst_conv)
  moreover note k
  moreover have "report ?cf w k = (True, None)"
    using accepted by (simp add: report_def updatePorts_cf_accepted)
  ultimately show "Poll (5 * Second) (60 * Second) ?cf w = (None, iter ?cf w (Suc k))"
    by (rule Poll_settles)
next
  let ?cf = "ProvideNode_cf nodes_ChangeProvisionState uuid tp"
  assume k: "k * (5 * Second) < 30 * Second"
    and conflicts: "\<forall>j<k. \<exists>a. fst (nodes_ChangeProvisionState uuid tp (iter ?cf v j)) = Some (ErrDefault409 a)"
    and accepted: "fst (nodes_ChangeProvisionState uuid tp (iter ?cf v k)) = None"
  have "0 < 5 * Second" by (simp add: Second_def)
  moreover have "\<forall>j<k. report ?cf v j = (False, None)"
    using conflicts by (metis report_def ProvideNode_cf_conflict fst_conv)
  moreover note k
  moreover have "report ?cf v k = (True, None)"
    using accepted by (simp add: report_def ProvideNode_cf_accepted)
  ultimately show "Poll (5 * Second) (30 * Second) ?cf v = (None, iter ?cf v (Suc k))"
    by (rule Poll_settles)
qed

theorem conflict_never_aborts_witness:
  "Poll (5 * Second) (60 * Second)
     (updatePorts_cf (\<lambda>uuid opts n::nat. (if n < 2 then Some (ErrDefault409 409) else None, Suc n))
        ''port'' []) 0 = (None, 3) \<and>
   Poll (5 * Second) (30 * Second)
     (ProvideNode_cf (\<lambda>uuid tp n::nat. (if n < 5 then Some (ErrDefault409 409) else None, Suc n))
        ''6f1e'' TargetManage) 0 = (None, 6) \<and>
   Poll 5 7 (\<lambda>n::nat. ((1 \<le> n, None), Suc n)) 0 = (None, 2)"
proof (intro conjI)
  let ?upd = "\<lambda>(uuid::string) (opts::UpdateOpts) n::nat. (if n < 2 then Some (ErrDefault409 409) else None, Suc n)"
  let ?cps = "\<lambda>(uuid::string) (tp::TargetProvisionState) n::nat.
                (if n < 5 then Some (ErrDefault409 409) else None, Suc n)"
  let ?cf = "updatePorts_cf ?upd ''port'' []"
  let ?cfM = "ProvideNode_cf ?cps ''6f1e'' TargetManage"
  let ?c = "\<lambda>n::nat. ((1 \<le> n, None :: error option), Suc n)"
  have it: "iter ?cf m j = m + j" "iter ?cfM m j = m + j" "iter ?c m j = m + j" for m j
    by (induction j arbitrary: m) (simp_all add: updatePorts_cf_def ProvideNode_cf_def)
  have "2 * (5 * Second) < 60 * Second \<longrightarrow>
      (\<forall>j<2. \<exists>a. fst (?upd ''port'' [] (iter ?cf 0 j)) = Some (ErrDefault409 a)) \<longrightarrow>
      fst (?upd ''port'' [] (iter ?cf 0 2)) = None \<longrightarrow>
      Poll (5 * Second) (60 * Second) ?cf 0 = (None, iter ?cf 0 (Suc 2))"
    using conflict_never_aborts [where k = 2 and ports_Update = ?upd and uuid = "''port''" and opts = "[]" and w = 0]
    by (rule conjunct2 [THEN conjunct1])
  then show "Poll (5 * Second) (60 * Second) ?cf 0 = (None, 3)"
    unfolding it by (simp add: Second_def)
  have "5 * (5 * Second) < 30 * Second \<longrightarrow>
      (\<forall>j<5. \<exists>a. fst (?cps ''6f1e'' TargetManage (iter ?cfM 0 j)) = Some (ErrDefault409 a)) \<longrightarrow>
      fst (?cps ''6f1e'' TargetManage (iter ?cfM 0 5)) = None \<longrightarrow>
      Poll (5 * Second) (30 * Second) ?cfM 0 = (None, iter ?cfM 0 (Suc 5))"
    using conflict_never_aborts [where k = 5 and nodes_ChangeProvisionState = ?cps
        and uuid = "''6f1e''" and tp = TargetManage and v = 0]
    by (rule conjunct2 [THEN conjunct2])
  then show "Poll (5 * Second) (30 * Second) ?cfM 0 = (None, 6)"
    unfolding it by (simp add: Second_def)
  have "0 < (5::nat) \<longrightarrow> 1 * 5 < (7::nat) \<longrightarrow> (\<forall>j<1. report ?c 0 j = (False, None)) \<longrightarrow>
      report ?c 0 1 = (True, None) \<longrightarrow> Poll 5 7 ?c 0 = (None, iter ?c 0 (Suc 1))"
    using conflict_never_aborts [where k = 1 and I = 5 and T = 7 and cf = ?c and s = 0]
    by (rule conjunct1)
  then show "Poll 5 7 ?c 0 = (None, 2)"
    unfolding it report_def by simp
qed

section \<open>Claims about rule application\<close>

text \<open>Logging the remote call is the same as logging the condition that makes it.\<close>

lemma updateNode_cf_logged:
  "updateNode_cf (\<lambda>u p. logged (c u p) (f u p)) uuid opts = logged (c uuid opts) (updateNode_cf f uuid opts)"
  by (auto simp: updateNode_cf_def logged_def fun_eq_iff split: prod.splits option.splits)

lemma invocations_5_60: "invocations (5 * Second) (60 * Second) = 12"
  by (simp add: invocations_def Second_def)


lemma Second_pos: "0 < 5 * Second" "0 < 60 * Second" "0 < 30 * Second"
  by (simp_all add: Second_def)

lemma updateNode_cf_report:
  "report (updateNode_cf f uuid opts) w j =
     (fst (f uuid opts (iter (updateNode_cf f uuid opts) w j)) = None, None)"
  by (auto simp: report_def updateNode_cf_def split: prod.splits option.splits)

text \<open>
  C7. The claim says that a node update answered with an error other than a conflict
  aborts the step with that error, with no further attempt. Run against a remote side
  that answers every \<open>nodes.Update\<close> with the same error \<open>e\<close>, whatever it is,
  \<open>updateNode\<close> sends the update 12 times and returns the timeout error of the poll.
\<close>

theorem updateNode_retries_every_error:
  "updateNode (\<lambda>uuid opts. logged (NodesUpdate uuid opts) (\<lambda>w. (Some e, w))) opts n ([], w)
     = (Some ErrWaitTimeout, replicate 12 (NodesUpdate (UUID n) opts), w)"
proof -
  let ?f = "\<lambda>(uuid::string) (opts::UpdateOpts) w. (Some e, w)"
  let ?cf = "updateNode_cf ?f (UUID n) opts"
  have it: "iter ?cf v j = v" for v j
    by (induction j arbitrary: v) (simp_all add: updateNode_cf_def)
  have "\<forall>j<invocations (5 * Second) (60 * Second).
          report (logged (NodesUpdate (UUID n) opts) ?cf) ([], w) j = (False, None)"
    by (simp add: report_logged updateNode_cf_report)
  then have "Poll (5 * Second) (60 * Second) (logged (NodesUpdate (UUID n) opts) ?cf) ([], w)
      = (Some ErrWaitTimeout, iter (logged (NodesUpdate (UUID n) opts) ?cf) ([], w)
           (invocations (5 * Second) (60 * Second)))"
    by (intro Poll_times_out Second_pos)
  then show ?thesis
    by (simp add: updateNode_def updateNode_cf_logged iter_logged it invocations_5_60)
qed








lemma ProvideNode_cfp_report_pending:
  "fst (f uuid (iter (ProvideNode_cfp f uuid) w j)) = Inr nd \<Longrightarrow>
   ProvisionState nd \<noteq> ''available'' \<Longrightarrow>
   report (ProvideNode_cfp f uuid) w j = (False, None)"
  by (auto simp: report_def ProvideNode_cfp_def split: prod.splits sum.splits)



section \<open>Claims about provisioning\<close>



section \<open>Claims about validation and teardown\<close>



text \<open>
  C6. The claim says that a successful teardown clears the instance identifier and the
  instance address of the node. It does not: on a node with a test instance and a
  remote side that accepts the deletion, \<open>DeleteTestInstance\<close> returns no error and
  both fields still hold their values.
\<close>

theorem DeleteTestInstance_keeps_fields_counterexample:
  "fst (DeleteTestInstance accepting reaching node1 ()) = None \<and>
   InstanceUUID (fst (snd (DeleteTestInstance accepting reaching node1 ()))) = ''i-42'' \<and>
   InstanceIPv4 (fst (snd (DeleteTestInstance accepting reaching node1 ()))) = ''10.1.1.1''"
  by (simp add: DeleteTestInstance_def accepting_def reaching_def node1_def node0_def)

text \<open>
  C6, as amended. Whatever the remote side answers, \<open>DeleteTestInstance\<close> leaves every
  field of the node as it was, the instance identifier and address included.
\<close>

theorem DeleteTestInstance_node_unchanged:
  assumes "DeleteTestInstance servers_ForceDelete servers_WaitForStatus n w = (err, n', w')"
  shows "n' = n"
  using assms by (auto simp: DeleteTestInstance_def split: prod.splits option.splits)

theorem DeleteTestInstance_node_unchanged_witness:
  "fst (snd (DeleteTestInstance accepting reaching node1 ())) = node1"
proof -
  obtain err n' w' where run: "DeleteTestInstance accepting reaching node1 () = (err, n', w')"
    by (cases "DeleteTestInstance accepting reaching node1 ()") auto
  from DeleteTestInstance_node_unchanged [OF run] run show ?thesis by simp
qed

section \<open>Claims about the error handler\<close>

text \<open>
  C8. The claim says that the handler receives every failure sent before the
  cancellation. With two failures ready, both for a node with a test instance, the
  handler's goroutine logs and tears down for the first and ends: the second failure is
  never received and no teardown is issued for it.
\<close>

theorem initHandler_handles_one_failure:
  "initHandler (\<lambda>n. logged (DeleteTestDeployment (InstanceUUID n)) (accepting n))
     [Received (SchedulerError ''first'' (Some node1)),
      Received (SchedulerError ''second'' (Some node1))] ([], ())
   = Returns ([Infof ''6f1e'' ''first''],
              [Received (SchedulerError ''second'' (Some node1))],
              ([DeleteTestDeployment ''i-42''], ()))"
  by (simp add: logged_def accepting_def node1_def node0_def)

section \<open>Claims about DNS registration and the node name\<close>

lemma strings_Split_nonempty: "strings_Split s sep \<noteq> []"
  by (induction s) (auto split: list.splits)

lemma strings_Split_without: "sep \<notin> set s \<Longrightarrow> strings_Split s sep = [s]"
  by (induction s) auto

lemma strings_Split_with: "sep \<in> set s \<Longrightarrow> \<exists>a b rest. strings_Split s sep = a # b # rest"
proof (induction s)
  case Nil
  then show ?case by simp
next
  case (Cons x s)
  show ?case
  proof (cases "x = sep")
    case True
    obtain b rest where "strings_Split s sep = b # rest"
      using strings_Split_nonempty [of s sep] by (cases "strings_Split s sep") auto
    with True show ?thesis by simp
  next
    case False
    with Cons.prems have "sep \<in> set s" by simp
    then obtain a b rest where "strings_Split s sep = a # b # rest"
      using Cons.IH by blast
    with False show ?thesis by simp
  qed
qed

lemma CreateDNSRecordFor_create:
  assumes "zones_List (domain @ ''.'') d = (Inr (Inr zs), d1)" "zs \<noteq> []"
    and "strings_Split (Name n) CHR ''-'' = na0 # na1 # rest"
  shows "CreateDNSRecordFor domain zones_List recordsets_Create n d =
     (case recordsets_Create (ZoneID (zs ! 0))
             (CreateOpts (na0 @ ''r-'' @ na1 @ ''.'' @ domain @ ''.'') 3600 ''A'' [IP n]) d1 of
        (answer, d2) \<Rightarrow>
          Returns (if answer = Some (ErrDefault409 409) then None else answer,
                   n\<lparr>Host := na0 @ ''r-'' @ na1 @ ''.'' @ domain @ ''.''\<rparr>, d2))"
  using assms
  by (auto simp: CreateDNSRecordFor_def index_def Let_def split: prod.splits option.splits error.splits)

lemma CreateDNSRecordFor_no_zone:
  "zones_List (domain @ ''.'') d = (Inl e, d1) \<Longrightarrow>
     CreateDNSRecordFor domain zones_List recordsets_Create n d = Returns (Some e, n, d1)"
  "zones_List (domain @ ''.'') d = (Inr (Inl e), d1) \<Longrightarrow>
     CreateDNSRecordFor domain zones_List recordsets_Create n d
       = Returns (Some (Errorf ''wrong dns zone''), n, d1)"
  "zones_List (domain @ ''.'') d = (Inr (Inr []), d1) \<Longrightarrow>
     CreateDNSRecordFor domain zones_List recordsets_Create n d
       = Returns (Some (Errorf ''wrong dns zone''), n, d1)"
  by (simp_all add: CreateDNSRecordFor_def)

text \<open>
  C4. Let the node's name split at "-" into at least two pieces and let the zone
  listing give at least one zone, so that the record creation is called. If that call
  answers "already exists" (\<open>ErrDefault409\<close> with status 409), or accepts the record,
  \<open>CreateDNSRecordFor\<close> returns no error; if it answers any other error, the step
  returns that error. Hence a second run for the same node, answered with "already
  exists", returns no error either.
\<close>

theorem CreateDNSRecordFor_already_exists:
  fixes zones_List :: "string \<Rightarrow> 'd \<Rightarrow> (error + error + Zone list) \<times> 'd"
  defines "host \<equiv> \<lambda>domain na0 na1. na0 @ ''r-'' @ na1 @ ''.'' @ domain @ ''.''"
  assumes name: "strings_Split (Name n) CHR ''-'' = na0 # na1 # rest"
    and zones: "zones_List (domain @ ''.'') d = (Inr (Inr zs), d1)" "zs \<noteq> []"
    and answer: "recordsets_Create (ZoneID (zs ! 0))
                   (CreateOpts (host domain na0 na1) 3600 ''A'' [IP n]) d1 = (answer, d2)"
  shows "(answer = Some (ErrDefault409 409) \<or> answer = None \<longrightarrow>
            CreateDNSRecordFor domain zones_List recordsets_Create n d
              = Returns (None, n\<lparr>Host := host domain na0 na1\<rparr>, d2)) \<and>
         (\<forall>e. answer = Some e \<and> e \<noteq> ErrDefault409 409 \<longrightarrow>
            CreateDNSRecordFor domain zones_List recordsets_Create n d
              = Returns (Some e, n\<lparr>Host := host domain na0 na1\<rparr>, d2)) \<and>
         (\<forall>zs' d3 d4.
            zones_List (domain @ ''.'') d2 = (Inr (Inr zs'), d3) \<and> zs' \<noteq> [] \<and>
            recordsets_Create (ZoneID (zs' ! 0))
              (CreateOpts (host domain na0 na1) 3600 ''A'' [IP n]) d3
              = (Some (ErrDefault409 409), d4) \<longrightarrow>
            CreateDNSRecordFor domain zones_List recordsets_Create
              (n\<lparr>Host := host domain na0 na1\<rparr>) d2
              = Returns (None, n\<lparr>Host := host domain na0 na1\<rparr>, d4))"
proof (intro conjI allI impI)
  note first = CreateDNSRecordFor_create
    [where zones_List = zones_List and domain = domain and d = d
       and recordsets_Create = recordsets_Create, OF zones name]
  show "CreateDNSRecordFor domain zones_List recordsets_Create n d
          = Returns (None, n\<lparr>Host := host domain na0 na1\<rparr>, d2)"
    if "answer = Some (ErrDefault409 409) \<or> answer = None"
    using that answer first unfolding host_def by auto
  show "CreateDNSRecordFor domain zones_List recordsets_Create n d
          = Returns (Some e, n\<lparr>Host := host domain na0 na1\<rparr>, d2)"
    if "answer = Some e \<and> e \<noteq> ErrDefault409 409" for e
    using that answer first unfolding host_def by auto
  show "CreateDNSRecordFor domain zones_List recordsets_Create (n\<lparr>Host := host domain na0 na1\<rparr>) d2
          = Returns (None, n\<lparr>Host := host domain na0 na1\<rparr>, d4)"
    if again: "zones_List (domain @ ''.'') d2 = (Inr (Inr zs'), d3) \<and> zs' \<noteq> [] \<and>
        recordsets_Create (ZoneID (zs' ! 0))
          (CreateOpts (host domain na0 na1) 3600 ''A'' [IP n]) d3 = (Some (ErrDefault409 409), d4)"
    for zs' d3 d4
  proof -
    let ?n = "n\<lparr>Host := host domain na0 na1\<rparr>"
    have name': "strings_Split (Name ?n) CHR ''-'' = na0 # na1 # rest"
      using name by simp
    from again have z: "zones_List (domain @ ''.'') d2 = (Inr (Inr zs'), d3)" and ne: "zs' \<noteq> []"
      by simp_all
    show ?thesis
      using again CreateDNSRecordFor_create
        [where zones_List = zones_List and domain = domain and d = d2
           and recordsets_Create = recordsets_Create, OF z ne name']
      unfolding host_def by simp
  qed
qed

theorem CreateDNSRecordFor_already_exists_witness:
  "CreateDNSRecordFor ''cc.example'' listing creating node0 []
     = Returns (None, node0\<lparr>Host := ''node001r-bb091.cc.example.''\<rparr>,
                [''node001r-bb091.cc.example.'']) \<and>
   CreateDNSRecordFor ''cc.example'' listing creating
       (node0\<lparr>Host := ''node001r-bb091.cc.example.''\<rparr>) [''node001r-bb091.cc.example.'']
     = Returns (None, node0\<lparr>Host := ''node001r-bb091.cc.example.''\<rparr>,
                [''node001r-bb091.cc.example.'']) \<and>
   CreateDNSRecordFor ''cc.example'' listing (\<lambda>zid opts. failing (ErrOther ''quota'')) node0 []
     = Returns (Some (ErrOther ''quota''), node0\<lparr>Host := ''node001r-bb091.cc.example.''\<rparr>, [])"
proof -
  have name: "strings_Split (Name node0) CHR ''-'' = ''node001'' # ''bb091'' # []"
    by (simp add: node0_def)
  have zones: "listing (''cc.example'' @ ''.'') [] = (Inr (Inr [\<lparr>ZoneID = ''zone-1''\<rparr>]), [])"
    "[\<lparr>ZoneID = ''zone-1''\<rparr>] \<noteq> []"
    by (simp_all add: listing_def)
  have answer: "creating (ZoneID ([\<lparr>ZoneID = ''zone-1''\<rparr>] ! 0))
      (CreateOpts (''node001'' @ ''r-'' @ ''bb091'' @ ''.'' @ ''cc.example'' @ ''.'') 3600 ''A''
         [IP node0]) [] = (None, [''node001r-bb091.cc.example.''])"
    by (simp add: creating_def)
  have refused: "(\<lambda>zid opts. failing (ErrOther ''quota'')) (ZoneID ([\<lparr>ZoneID = ''zone-1''\<rparr>] ! 0))
      (CreateOpts (''node001'' @ ''r-'' @ ''bb091'' @ ''.'' @ ''cc.example'' @ ''.'') 3600 ''A''
         [IP node0]) ([] :: string list) = (Some (ErrOther ''quota''), [])"
    by (simp add: failing_def)
  from CreateDNSRecordFor_already_exists
    [where zones_List = listing and recordsets_Create = creating, OF name zones answer]
  have "CreateDNSRecordFor ''cc.example'' listing creating node0 []
     = Returns (None, node0\<lparr>Host := ''node001r-bb091.cc.example.''\<rparr>,
                [''node001r-bb091.cc.example.'']) \<and>
   CreateDNSRecordFor ''cc.example'' listing creating
       (node0\<lparr>Host := ''node001r-bb091.cc.example.''\<rparr>) [''node001r-bb091.cc.example.'']
     = Returns (None, node0\<lparr>Host := ''node001r-bb091.cc.example.''\<rparr>,
                [''node001r-bb091.cc.example.''])"
    by (simp add: listing_def creating_def)
  moreover
  from CreateDNSRecordFor_already_exists
    [where zones_List = listing and recordsets_Create = "\<lambda>zid opts. failing (ErrOther ''quota'')",
       OF name zones refused]
  have "CreateDNSRecordFor ''cc.example'' listing (\<lambda>zid opts. failing (ErrOther ''quota'')) node0 []
     = Returns (Some (ErrOther ''quota''), node0\<lparr>Host := ''node001r-bb091.cc.example.''\<rparr>, [])"
    by simp
  ultimately show ?thesis by simp
qed

text \<open>
  C10. The guard \<open>len(na) < 1\<close> is never true, as a split has at least one piece. For a
  node whose name contains "-", \<open>CreateDNSRecordFor\<close> and \<open>PrepareNode\<close> return; for
  a name without "-", \<open>PrepareNode\<close> panics with an index out of range, and so does
  \<open>CreateDNSRecordFor\<close> whenever the zone lookup lets it reach the index.
\<close>

theorem node_name_index:
  "(\<forall>s. \<not> length (strings_Split s CHR ''-'') < 1) \<and>
   (CHR ''-'' \<in> set (Name n) \<longrightarrow>
      (\<exists>res. CreateDNSRecordFor domain zones_List recordsets_Create n d = Returns res) \<and>
      (\<exists>res. PrepareNode nodes_Update n w = Returns res)) \<and>
   (CHR ''-'' \<notin> set (Name n) \<longrightarrow>
      PrepareNode nodes_Update n w = Panic ''index out of range'' \<and>
      (\<forall>zs d1. zones_List (domain @ ''.'') d = (Inr (Inr zs), d1) \<and> zs \<noteq> [] \<longrightarrow>
         CreateDNSRecordFor domain zones_List recordsets_Create n d = Panic ''index out of range''))"
proof (intro conjI allI impI)
  fix s
  show "\<not> length (strings_Split s CHR ''-'') < 1"
    using strings_Split_nonempty [of s "CHR ''-''"] by (cases "strings_Split s CHR ''-''") auto
next
  assume "CHR ''-'' \<in> set (Name n)"
  then obtain a b rest where na: "strings_Split (Name n) CHR ''-'' = a # b # rest"
    using strings_Split_with by blast
  show "\<exists>res. PrepareNode nodes_Update n w = Returns res"
    by (simp add: PrepareNode_def index_def na)
  show "\<exists>res. CreateDNSRecordFor domain zones_List recordsets_Create n d = Returns res"
  proof (cases "zones_List (domain @ ''.'') d")
    case (Pair z d1)
    show ?thesis
    proof (cases z)
      case (Inl e)
      with Pair show ?thesis by (simp add: CreateDNSRecordFor_no_zone(1))
    next
      case (Inr x)
      show ?thesis
      proof (cases x)
        case (Inl e)
        with Pair Inr show ?thesis by (simp add: CreateDNSRecordFor_no_zone(2))
      next
        case zs: (Inr zs)
        show ?thesis
        proof (cases "zs = []")
          case True
          with Pair Inr zs show ?thesis by (simp add: CreateDNSRecordFor_no_zone(3))
        next
          case False
          from Pair Inr zs have "zones_List (domain @ ''.'') d = (Inr (Inr zs), d1)" by simp
          from CreateDNSRecordFor_create
            [where zones_List = zones_List and domain = domain and d = d
               and recordsets_Create = recordsets_Create, OF this False na]
          show ?thesis by (auto split: prod.splits)
        qed
      qed
    qed
  qed
next
  assume no: "CHR ''-'' \<notin> set (Name n)"
  then have na: "strings_Split (Name n) CHR ''-'' = [Name n]"
    by (rule strings_Split_without)
  show "PrepareNode nodes_Update n w = Panic ''index out of range''"
    by (simp add: PrepareNode_def index_def na)
  fix zs d1
  assume "zones_List (domain @ ''.'') d = (Inr (Inr zs), d1) \<and> zs \<noteq> []"
  then show "CreateDNSRecordFor domain zones_List recordsets_Create n d = Panic ''index out of range''"
    by (simp add: CreateDNSRecordFor_def index_def na)
qed

theorem node_name_index_witness:
  "PrepareNode (\<lambda>uuid opts. accepting opts) (node0\<lparr>Name := ''node001''\<rparr>) ()
     = Panic ''index out of range'' \<and>
   CreateDNSRecordFor ''cc.example'' listing creating (node0\<lparr>Name := ''node001''\<rparr>) []
     = Panic ''index out of range'' \<and>
   (\<exists>res. PrepareNode (\<lambda>uuid opts. accepting opts) node0 () = Returns res) \<and>
   (\<exists>res. CreateDNSRecordFor ''cc.example'' listing creating node0 [] = Returns res)"
proof -
  let ?upd = "\<lambda>(uuid::string) (opts::UpdateOpts). accepting opts :: unit \<Rightarrow> error option \<times> unit"
  have with_dash: "CHR ''-'' \<in> set (Name node0)"
    by (simp add: node0_def)
  have without: "CHR ''-'' \<notin> set (Name (node0\<lparr>Name := ''node001''\<rparr>))"
    by simp
  have zones: "listing (''cc.example'' @ ''.'') [] = (Inr (Inr [\<lparr>ZoneID = ''zone-1''\<rparr>]), []) \<and>
      [\<lparr>ZoneID = ''zone-1''\<rparr>] \<noteq> []"
    by (simp add: listing_def)
  from node_name_index [where n = node0 and nodes_Update = ?upd and w = "()"
      and domain = "''cc.example''" and zones_List = listing and recordsets_Create = creating
      and d = "[]"] with_dash
  have a: "(\<exists>res. PrepareNode ?upd node0 () = Returns res) \<and>
      (\<exists>res. CreateDNSRecordFor ''cc.example'' listing creating node0 [] = Returns res)"
    by blast
  from node_name_index [where n = "node0\<lparr>Name := ''node001''\<rparr>" and nodes_Update = ?upd and w = "()"
      and domain = "''cc.example''" and zones_List = listing and recordsets_Create = creating
      and d = "[]"] without zones
  have b: "PrepareNode ?upd (node0\<lparr>Name := ''node001''\<rparr>) () = Panic ''index out of range'' \<and>
      CreateDNSRecordFor ''cc.example'' listing creating (node0\<lparr>Name := ''node001''\<rparr>) []
        = Panic ''index out of range''"
    by blast
  from a b show ?thesis by blast
qed

section \<open>Claims about the flavor matcher\<close>





















end
